theory Spec2Isabelle
  imports Complex_Main "HOL-Library.Word"
begin

section \<open>Card art engine: strings, hash and generator\<close>

text \<open>
  A JavaScript string is a sequence of 16-bit code units; \<open>charCodeAt\<close> reads one of them.
  The colour codes and other literals of the source are ASCII and kept as HOL strings.
\<close>

type_synonym jschar = "16 word"
type_synonym jsstring = "jschar list"

text \<open>
  \<open>x | 0\<close> and the result of \<open>x << 5\<close>: the integer wrapped to the signed 32-bit range.
\<close>

definition to_int32 :: "int \<Rightarrow> int" where
  "to_int32 x = sint (word_of_int x :: 32 word)"

text \<open>
  The body of the loop of \<open>hash\<close>: \<open>h = ((h << 5) - h + str.charCodeAt(i)) | 0\<close>.
  The shift wraps, the subtraction and the addition are exact (all operands are below
  \<open>2^33\<close> in magnitude), and \<open>| 0\<close> wraps again.
\<close>

definition hash_step :: "int \<Rightarrow> jschar \<Rightarrow> int" where
  "hash_step h c = to_int32 (to_int32 (h * 2 ^ 5) - h + uint c)"

text \<open>\<open>hash\<close>: the loop from \<open>h = 0\<close> over the code units, then \<open>Math.abs\<close>.\<close>

definition hash_loop :: "jsstring \<Rightarrow> int" where
  "hash_loop str = foldl hash_step 0 str"

definition hash :: "jsstring \<Rightarrow> nat" where
  "hash str = nat \<bar>hash_loop str\<bar>"

text \<open>
  The recurrence in the words of the specification: \<open>h = h*31 + charCode\<close> over the unbounded
  integers, wrapped to the signed 32-bit range, then the absolute value.
\<close>

definition spec_fold :: "jsstring \<Rightarrow> int" where
  "spec_fold str = foldl (\<lambda>h c. h * 31 + uint c) 0 str"

definition spec_seed :: "jsstring \<Rightarrow> int" where
  "spec_seed str = \<bar>to_int32 (spec_fold str)\<bar>"

text \<open>
  \<open>seededRandom\<close>: the closure keeps one variable \<open>s\<close>. A call of the closure replaces
  \<open>s\<close> by \<open>(s * 16807 + 0) % 2147483647\<close> and returns \<open>(s - 1) / 2147483646\<close>.
  The state is a non-negative integer below \<open>2^32\<close>, so the product is below \<open>2^53\<close> and the
  double arithmetic of the state is exact. The returned double is the real quotient rounded
  to the nearest double; it is modelled by the real quotient itself. Rounding is monotone
  and keeps 0, so the sign and the bound 1 carry over; every quotient differs from 0.4 by
  more than \<open>9 * 10^-11\<close>, and \<open>rand() * 3\<close> is an integer or differs from the nearest one
  by more than \<open>10^-9\<close>, so the test \<open>> 0.4\<close> and \<open>Math.floor(rand() * 3)\<close> are the same in
  both arithmetics.
\<close>

definition lcg_next :: "nat \<Rightarrow> nat" where
  "lcg_next s = (s * 16807 + 0) mod 2147483647"

definition lcg_out :: "nat \<Rightarrow> real" where
  "lcg_out s = (real s - 1) / 2147483646"

definition rand :: "nat \<Rightarrow> real \<times> nat" where
  "rand s = (let s' = lcg_next s in (lcg_out s', s'))"

text \<open>The state after \<open>n\<close> draws from a generator seeded with \<open>seed\<close>.\<close>

definition lcg_state :: "nat \<Rightarrow> nat \<Rightarrow> nat" where
  "lcg_state seed n = (lcg_next ^^ n) seed"

section \<open>Card art engine: palettes and patterns\<close>

definition PALETTES :: "string list list" where
  "PALETTES =
    [[''#e8734a'', ''#f4a261'', ''#fef0e4'', ''#264653'', ''#2a9d8f''],
     [''#6b705c'', ''#a5a58d'', ''#ffe8d6'', ''#cb997e'', ''#ddbea9''],
     [''#bc6c25'', ''#dda15e'', ''#fefae0'', ''#606c38'', ''#283618''],
     [''#e07a5f'', ''#f2cc8f'', ''#f4f1de'', ''#3d405b'', ''#81b29a''],
     [''#d4a373'', ''#faedcd'', ''#fefae0'', ''#e9edc9'', ''#ccd5ae''],
     [''#b5838d'', ''#e5989b'', ''#ffb4a2'', ''#ffcdb2'', ''#6d6875''],
     [''#7f5539'', ''#b08968'', ''#ddb892'', ''#e6ccb2'', ''#ede0d4''],
     [''#588157'', ''#a3b18a'', ''#dad7cd'', ''#344e41'', ''#3a5a40'']]"

definition getPalette :: "nat \<Rightarrow> string list" where
  "getPalette h = PALETTES ! (h mod length PALETTES)"

text \<open>
  \<open>palette[i]\<close> for an integer \<open>i\<close>: the entry, or \<open>undefined\<close> (\<open>None\<close>) outside the
  array.
\<close>

definition pick :: "string list \<Rightarrow> int \<Rightarrow> string option" where
  "pick palette i =
     (if 0 \<le> i \<and> i < int (length palette) then Some (palette ! nat i) else None)"

text \<open>\<open>a || b\<close> on values that are a string or \<open>undefined\<close>.\<close>

definition js_or :: "string option \<Rightarrow> string option \<Rightarrow> string option" where
  "js_or a b = (if a = None \<or> a = Some [] then b else a)"

text \<open>
  The primitives the pattern functions append to the markup. Each constructor carries the
  values that the template literal prints, in the order of the attributes; the numbers are
  the values before \<open>toFixed\<close>, computed in real arithmetic.
  \<^item> \<open>Circle cx cy r fill opacity\<close>
  \<^item> \<open>Rect x y width height fill opacity rotation rot_x rot_y rx\<close>
  \<^item> \<open>Polygon points fill opacity rotation rot_x rot_y\<close>
  \<^item> \<open>WavePath y0 points stroke stroke_width opacity\<close>: \<open>M 0 y0\<close>, then one \<open>L x y\<close> per point
  \<^item> \<open>ArcPath x1 y1 r large_arc x2 y2 stroke stroke_width opacity\<close>
\<close>

datatype shape =
    Circle real real real "string option" real
  | Rect real real real real "string option" real real real real real
  | Polygon "(real \<times> real) list" "string option" real real real real
  | WavePath real "(int \<times> real) list" "string option" real real
  | ArcPath real real real nat real real "string option" real real

subsection \<open>Pattern 1: blobs\<close>

fun blob_loop :: "nat \<Rightarrow> string list \<Rightarrow> int \<Rightarrow> int \<Rightarrow> nat \<Rightarrow> shape list \<times> nat" where
  "blob_loop 0 palette w h s = ([], s)"
| "blob_loop (Suc n) palette w h s =
     (let (a, s) = rand s; cx = a * real_of_int w;
          (a, s) = rand s; cy = a * real_of_int h;
          (a, s) = rand s; r = 40 + a * 80;
          (a, s) = rand s; color = pick palette \<lfloor>a * real (length palette)\<rfloor>;
          (a, s) = rand s; opacity = 0.3 + a * 0.4;
          (rest, s) = blob_loop n palette w h s
      in (Circle cx cy r color opacity # rest, s))"

text \<open>
  \<open>count = 3 + Math.floor(rand() * 3)\<close>; the loop \<open>for (i = 0; i < count; i++)\<close> runs
  \<open>count\<close> times, and not at all when \<open>count\<close> is not positive.
\<close>

definition blobPattern :: "nat \<Rightarrow> string list \<Rightarrow> int \<Rightarrow> int \<Rightarrow> shape list \<times> nat" where
  "blobPattern s palette w h =
     (let (a, s) = rand s; count = 3 + \<lfloor>a * 3\<rfloor>
      in blob_loop (nat count) palette w h s)"

subsection \<open>Pattern 2: rotated rectangles and triangles\<close>

fun geo_loop :: "nat \<Rightarrow> string list \<Rightarrow> int \<Rightarrow> int \<Rightarrow> nat \<Rightarrow> shape list \<times> nat" where
  "geo_loop 0 palette w h s = ([], s)"
| "geo_loop (Suc n) palette w h s =
     (let (a, s) = rand s; x = a * real_of_int w;
          (a, s) = rand s; y = a * real_of_int h;
          (a, s) = rand s; size = 30 + a * 60;
          (a, s) = rand s; color = pick palette \<lfloor>a * real (length palette)\<rfloor>;
          (a, s) = rand s; opacity = 0.25 + a * 0.4;
          (a, s) = rand s; rotation = a * 360;
          (a, s) = rand s;
          (sh, s) =
            (if a > 0.5 then
               (let (b, s) = rand s
                in (Rect (x - size / 2) (y - size / 2) size size color opacity rotation x y
                      (b * 8), s))
             else
               (Polygon [(x, y - size / 2), (x - size / 2, y + size / 2),
                         (x + size / 2, y + size / 2)] color opacity rotation x y, s));
          (rest, s) = geo_loop n palette w h s
      in (sh # rest, s))"

definition geoPattern :: "nat \<Rightarrow> string list \<Rightarrow> int \<Rightarrow> int \<Rightarrow> shape list \<times> nat" where
  "geoPattern s palette w h =
     (let (a, s) = rand s; count = 4 + \<lfloor>a * 4\<rfloor>
      in geo_loop (nat count) palette w h s)"

subsection \<open>Pattern 3: wave lines\<close>

text \<open>The inner loop \<open>for (x = 0; x <= w; x += 10)\<close>: one draw and one point per step.\<close>

function wave_points ::
  "int \<Rightarrow> int \<Rightarrow> real \<Rightarrow> real \<Rightarrow> real \<Rightarrow> nat \<Rightarrow> (int \<times> real) list \<times> nat" where
  "wave_points x w y frequency amplitude s =
     (if x \<le> w then
        (let (a, s) = rand s;
             offset = sin ((real_of_int x / real_of_int w) * pi * frequency * 2 + a * 6)
                        * amplitude;
             (rest, s) = wave_points (x + 10) w y frequency amplitude s
         in ((x, y + offset) # rest, s))
      else ([], s))"
  by pat_completeness auto
termination
  by (relation "measure (\<lambda>(x, w, y, f, a, s). nat (w + 1 - x))") auto

function wave_loop ::
  "int \<Rightarrow> int \<Rightarrow> string list \<Rightarrow> int \<Rightarrow> int \<Rightarrow> nat \<Rightarrow> shape list \<times> nat" where
  "wave_loop i lineCount palette w h s =
     (if i < lineCount then
        (let y = (real_of_int h / real_of_int (lineCount + 1)) * real_of_int (i + 1);
             (a, s) = rand s; amplitude = 15 + a * 30;
             (a, s) = rand s; frequency = 1 + a * 2;
             (a, s) = rand s; color = pick palette \<lfloor>a * real (length palette)\<rfloor>;
             (a, s) = rand s; strokeWidth = 2 + a * 4;
             (pts, s) = wave_points 0 w y frequency amplitude s;
             (a, s) = rand s; opacity = 0.3 + a * 0.4;
             (rest, s) = wave_loop (i + 1) lineCount palette w h s
         in (WavePath y pts color strokeWidth opacity # rest, s))
      else ([], s))"
  by pat_completeness auto
termination
  by (relation "measure (\<lambda>(i, n, p, w, h, s). nat (n - i))") auto

definition wavePattern :: "nat \<Rightarrow> string list \<Rightarrow> int \<Rightarrow> int \<Rightarrow> shape list \<times> nat" where
  "wavePattern s palette w h =
     (let (a, s) = rand s; lineCount = 3 + \<lfloor>a * 4\<rfloor>
      in wave_loop 0 lineCount palette w h s)"

subsection \<open>Pattern 4: dot grid\<close>

text \<open>
  The two loops \<open>for (x = spacing; x < w; x += spacing)\<close> and
  \<open>for (y = spacing; y < h; y += spacing)\<close>. The step is \<open>25 + Math.floor(rand() * 15)\<close>,
  which is at least 24 (lemma \<open>dot_spacing_ge\<close> below), so the test \<open>0 < spacing\<close> written
  here never fails in \<open>dotGridPattern\<close>; it is what the termination proofs use.
\<close>

function dot_col ::
  "int \<Rightarrow> int \<Rightarrow> int \<Rightarrow> real \<Rightarrow> string list \<Rightarrow> int \<Rightarrow> nat \<Rightarrow> shape list \<times> nat" where
  "dot_col x y spacing jitter palette h s =
     (if y < h \<and> 0 < spacing then
        (let (a, s) = rand s; jx = real_of_int x + (a - 0.5) * jitter;
             (a, s) = rand s; jy = real_of_int y + (a - 0.5) * jitter;
             (a, s) = rand s; r = 2 + a * 6;
             (a, s) = rand s; color = pick palette \<lfloor>a * real (length palette)\<rfloor>;
             (a, s) = rand s; opacity = 0.2 + a * 0.5;
             (rest, s) = dot_col x (y + spacing) spacing jitter palette h s
         in (Circle jx jy r color opacity # rest, s))
      else ([], s))"
  by pat_completeness auto
termination
  by (relation "measure (\<lambda>(x, y, sp, j, p, h, s). nat (h - y))") auto

function dot_row ::
  "int \<Rightarrow> int \<Rightarrow> real \<Rightarrow> string list \<Rightarrow> int \<Rightarrow> int \<Rightarrow> nat \<Rightarrow> shape list \<times> nat" where
  "dot_row x spacing jitter palette w h s =
     (if x < w \<and> 0 < spacing then
        (let (col, s) = dot_col x spacing spacing jitter palette h s;
             (rest, s) = dot_row (x + spacing) spacing jitter palette w h s
         in (col @ rest, s))
      else ([], s))"
  by pat_completeness auto
termination
  by (relation "measure (\<lambda>(x, sp, j, p, w, h, s). nat (w - x))") auto

definition dotGridPattern :: "nat \<Rightarrow> string list \<Rightarrow> int \<Rightarrow> int \<Rightarrow> shape list \<times> nat" where
  "dotGridPattern s palette w h =
     (let (a, s) = rand s; spacing = 25 + \<lfloor>a * 15\<rfloor>;
          (a, s) = rand s; jitter = 5 + a * 10
      in dot_row spacing spacing jitter palette w h s)"

subsection \<open>Pattern 5: arcs\<close>

fun arc_loop :: "nat \<Rightarrow> string list \<Rightarrow> int \<Rightarrow> int \<Rightarrow> nat \<Rightarrow> shape list \<times> nat" where
  "arc_loop 0 palette w h s = ([], s)"
| "arc_loop (Suc n) palette w h s =
     (let (a, s) = rand s; cx = a * real_of_int w;
          (a, s) = rand s; cy = a * real_of_int h;
          (a, s) = rand s; r = 30 + a * 70;
          (a, s) = rand s; startAngle = a * 360;
          (a, s) = rand s; sweep = 60 + a * 180;
          (a, s) = rand s; color = pick palette \<lfloor>a * real (length palette)\<rfloor>;
          (a, s) = rand s; strokeWidth = 3 + a * 6;
          endAngle = startAngle + sweep;
          x1 = cx + r * cos ((startAngle * pi) / 180);
          y1 = cy + r * sin ((startAngle * pi) / 180);
          x2 = cx + r * cos ((endAngle * pi) / 180);
          y2 = cy + r * sin ((endAngle * pi) / 180);
          largeArc = (if sweep > 180 then 1 else 0);
          (a, s) = rand s; opacity = 0.3 + a * 0.4;
          (rest, s) = arc_loop n palette w h s
      in (ArcPath x1 y1 r largeArc x2 y2 color strokeWidth opacity # rest, s))"

definition arcPattern :: "nat \<Rightarrow> string list \<Rightarrow> int \<Rightarrow> int \<Rightarrow> shape list \<times> nat" where
  "arcPattern s palette w h =
     (let (a, s) = rand s; count = 4 + \<lfloor>a * 4\<rfloor>
      in arc_loop (nat count) palette w h s)"

subsection \<open>Pattern 6: layered circles\<close>

text \<open>The inner loop \<open>for (i = rings; i >= 0; i--)\<close>.\<close>

function ring_loop ::
  "int \<Rightarrow> int \<Rightarrow> real \<Rightarrow> real \<Rightarrow> real \<Rightarrow> string list \<Rightarrow> nat \<Rightarrow> shape list \<times> nat" where
  "ring_loop i rings maxR cx cy palette s =
     (if i \<ge> 0 then
        (let r = maxR * (real_of_int (i + 1) / real_of_int (rings + 1));
             (a, s) = rand s; color = pick palette \<lfloor>a * real (length palette)\<rfloor>;
             (a, s) = rand s; opacity = 0.15 + a * 0.3;
             (a, s) = rand s; offsetX = (a - 0.5) * 10;
             (a, s) = rand s; offsetY = (a - 0.5) * 10;
             (rest, s) = ring_loop (i - 1) rings maxR cx cy palette s
         in (Circle (cx + offsetX) (cy + offsetY) r color opacity # rest, s))
      else ([], s))"
  by pat_completeness auto
termination
  by (relation "measure (\<lambda>(i, n, m, cx, cy, p, s). nat (i + 1))") auto

fun group_loop :: "nat \<Rightarrow> string list \<Rightarrow> int \<Rightarrow> int \<Rightarrow> nat \<Rightarrow> shape list \<times> nat" where
  "group_loop 0 palette w h s = ([], s)"
| "group_loop (Suc n) palette w h s =
     (let (a, s) = rand s; cx = real_of_int w * 0.2 + a * real_of_int w * 0.6;
          (a, s) = rand s; cy = real_of_int h * 0.2 + a * real_of_int h * 0.6;
          (a, s) = rand s; rings = 3 + \<lfloor>a * 3\<rfloor>;
          (a, s) = rand s; maxR = 40 + a * 50;
          (circles, s) = ring_loop rings rings maxR cx cy palette s;
          (rest, s) = group_loop n palette w h s
      in (circles @ rest, s))"

definition layeredCirclePattern ::
  "nat \<Rightarrow> string list \<Rightarrow> int \<Rightarrow> int \<Rightarrow> shape list \<times> nat" where
  "layeredCirclePattern s palette w h =
     (let (a, s) = rand s; groups = 2 + \<lfloor>a * 2\<rfloor>
      in group_loop (nat groups) palette w h s)"

definition PATTERNS :: "(nat \<Rightarrow> string list \<Rightarrow> int \<Rightarrow> int \<Rightarrow> shape list \<times> nat) list" where
  "PATTERNS = [blobPattern, geoPattern, wavePattern, dotGridPattern, arcPattern,
               layeredCirclePattern]"

subsection \<open>The generator closures and \<open>generate\<close>\<close>

text \<open>
  Every call of \<open>seededRandom\<close> creates a closure with a variable \<open>s\<close> of its own. The
  store holds the variables of all closures created so far, in the order of creation; a
  closure is the index of its variable. \<open>with_rand r f\<close> runs a computation \<open>f\<close> that calls
  the closure \<open>r\<close>: it reads the variable of \<open>r\<close>, and writes the final state back.
\<close>

type_synonym store = "nat list"

definition seededRandom :: "nat \<Rightarrow> store \<Rightarrow> nat \<times> store" where
  "seededRandom seed st = (length st, st @ [seed])"

definition with_rand :: "nat \<Rightarrow> (nat \<Rightarrow> 'a \<times> nat) \<Rightarrow> store \<Rightarrow> 'a \<times> store" where
  "with_rand r f st = (let (x, s') = f (st ! r) in (x, st[r := s']))"

text \<open>
  The scene that the markup prints: the view box, the gradient (its id \<open>bg-seed\<close>, its
  angle and its two stops), and the primitives of the pattern layers in order.
\<close>

record scene =
  view_w :: int
  view_h :: int
  grad_seed :: nat
  grad_angle :: int
  stop_0 :: "string option"
  stop_100 :: "string option"
  shapes :: "shape list"

text \<open>
  \<open>generate(title, type = '')\<close>. The default of \<open>type\<close> is applied by the caller of the model:
  an absent category is the empty string.
\<close>

definition generate :: "jsstring \<Rightarrow> jsstring \<Rightarrow> store \<Rightarrow> scene \<times> store" where
  "generate title type st =
     (let seed = hash (title @ type);
          (r, st) = seededRandom seed st;
          palette = getPalette seed;
          w = 400; h = 200;
          patternIdx1 = seed mod length PATTERNS;
          patternIdx2 = (seed + 3) mod length PATTERNS;
          (a, st) = with_rand r rand st; useTwo = (a > 0.4);
          bg1 = js_or (pick palette 2) (pick palette 0);
          bg2 = js_or (pick palette 3) (pick palette 1);
          (a, st) = with_rand r rand st; gradAngle = \<lfloor>a * 360\<rfloor>;
          (layer1, st) = with_rand r (\<lambda>s. (PATTERNS ! patternIdx1) s palette w h) st;
          (layer2, st) =
            (if useTwo then with_rand r (\<lambda>s. (PATTERNS ! patternIdx2) s palette w h) st
             else ([], st))
      in (\<lparr>view_w = w, view_h = h, grad_seed = seed, grad_angle = gradAngle,
            stop_0 = bg1, stop_100 = bg2, shapes = layer1 @ layer2\<rparr>, st))"

section \<open>Card image renderer: text layout\<close>

definition SPACE :: jschar where "SPACE = 32"
definition LF :: jschar where "LF = 10"

text \<open>\<open>text.split(sep)\<close> for a separator of one code unit.\<close>

fun split_on :: "jschar \<Rightarrow> jsstring \<Rightarrow> jsstring list" where
  "split_on sep [] = [[]]"
| "split_on sep (c # cs) =
     (let r = split_on sep cs in if c = sep then [] # r else (c # hd r) # tl r)"

text \<open>
  \<open>wrapText(ctx, text, maxWidth)\<close>. The canvas context is used for \<open>ctx.measureText\<close> only,
  so it is the function \<open>width\<close> from a text to its width in the current font. The state
  of the \<open>forEach\<close> is the pair of \<open>lines\<close> and \<open>currentLine\<close>; an empty string is falsy.
\<close>

definition wrap_step ::
  "(jsstring \<Rightarrow> real) \<Rightarrow> real \<Rightarrow> jsstring list \<times> jsstring \<Rightarrow> jsstring
     \<Rightarrow> jsstring list \<times> jsstring" where
  "wrap_step width maxWidth state word =
     (let (lines, currentLine) = state;
          testLine = (if currentLine \<noteq> [] then currentLine @ [SPACE] @ word else word)
      in if width testLine > maxWidth \<and> currentLine \<noteq> []
         then (lines @ [currentLine], word)
         else (lines, testLine))"

definition wrapText :: "(jsstring \<Rightarrow> real) \<Rightarrow> jsstring \<Rightarrow> real \<Rightarrow> jsstring list" where
  "wrapText width text maxWidth =
     (let words = split_on SPACE text;
          (lines, currentLine) = foldl (wrap_step width maxWidth) ([], []) words
      in if currentLine \<noteq> [] then lines @ [currentLine] else lines)"

text \<open>\<open>words.join(' ')\<close>, to state which lines \<open>wrapText\<close> can produce.\<close>

fun join_sp :: "jsstring list \<Rightarrow> jsstring" where
  "join_sp [] = []"
| "join_sp [w] = w"
| "join_sp (w # ws) = w @ [SPACE] @ join_sp ws"

subsection \<open>The body of a card\<close>

record card =
  card_type :: "jsstring option"
  card_title :: "jsstring option"
  card_body :: "jsstring option"
  card_emoji :: "jsstring option"
  card_label :: "jsstring option"
  card_source_name :: "jsstring option"

text \<open>\<open>x || ''\<close> and \<open>x || d\<close> on a field that is a string or absent.\<close>

definition str_or :: "jsstring option \<Rightarrow> jsstring \<Rightarrow> jsstring" where
  "str_or x d = (case x of None \<Rightarrow> d | Some v \<Rightarrow> if v = [] then d else v)"

text \<open>\<open>replace(/\n+/g, '\n')\<close>: every run of line feeds becomes one line feed.\<close>

fun collapse_newlines :: "jsstring \<Rightarrow> jsstring" where
  "collapse_newlines [] = []"
| "collapse_newlines [c] = [c]"
| "collapse_newlines (c # d # cs) =
     (if c = LF \<and> d = LF then collapse_newlines (d # cs) else c # collapse_newlines (d # cs))"

text \<open>
  \<open>trim()\<close> removes the white space and line terminators of ECMAScript from both ends.
\<close>

definition js_whitespace :: "jschar \<Rightarrow> bool" where
  "js_whitespace c \<longleftrightarrow>
     c \<in> {0x0009, 0x000A, 0x000B, 0x000C, 0x000D, 0x0020, 0x00A0, 0x1680, 0x2000, 0x2001,
          0x2002, 0x2003, 0x2004, 0x2005, 0x2006, 0x2007, 0x2008, 0x2009, 0x200A, 0x2028,
          0x2029, 0x202F, 0x205F, 0x3000, 0xFEFF}"

definition trim :: "jsstring \<Rightarrow> jsstring" where
  "trim str = rev (dropWhile js_whitespace (rev (dropWhile js_whitespace str)))"

text \<open>
  The \<open>forEach\<close> over the paragraphs: a blank line before every non-blank paragraph but the
  first, then the wrapped lines of the trimmed paragraph.
\<close>

definition para_step ::
  "(jsstring \<Rightarrow> real) \<Rightarrow> real \<Rightarrow> jsstring list \<times> nat \<Rightarrow> jsstring \<Rightarrow> jsstring list \<times> nat" where
  "para_step width maxWidth state para =
     (let (bodyLines, pi) = state;
          bodyLines = (if pi > 0 \<and> trim para \<noteq> [] then bodyLines @ [[]] else bodyLines);
          wrapped = wrapText width (trim para) maxWidth
      in (bodyLines @ wrapped, pi + 1))"

definition W :: int where "W = 1080"
definition H :: int where "H = 1920"
definition PAD :: int where "PAD = 80"
definition CONTENT_W :: int where "CONTENT_W = W - PAD * 2"
definition cardPad :: int where "cardPad = 60"
definition maxBodyLines :: nat where "maxBodyLines = 16"
definition bodyLineHeight :: int where "bodyLineHeight = 58"
definition titleLineHeight :: int where "titleLineHeight = 72"

definition TITLE_FONT :: string where
  "TITLE_FONT = ''bold 56px Inter, -apple-system, sans-serif''"
definition BODY_FONT :: string where
  "BODY_FONT = ''400 38px Georgia, serif''"

text \<open>
  The text layout of \<open>CardImage.generate\<close>. \<open>measureText font text\<close> is the width that
  \<open>ctx.measureText(text)\<close> reports while \<open>ctx.font\<close> is \<open>font\<close>.
\<close>

definition titleLines :: "(string \<Rightarrow> jsstring \<Rightarrow> real) \<Rightarrow> card \<Rightarrow> jsstring list" where
  "titleLines measureText c =
     wrapText (measureText TITLE_FONT) (str_or (card_title c) [])
       (real_of_int (CONTENT_W - cardPad * 2))"

definition bodyLines :: "(string \<Rightarrow> jsstring \<Rightarrow> real) \<Rightarrow> card \<Rightarrow> jsstring list" where
  "bodyLines measureText c =
     (let bodyText = collapse_newlines (str_or (card_body c) []);
          bodyParagraphs = split_on LF bodyText
      in fst (foldl (para_step (measureText BODY_FONT) (real_of_int (CONTENT_W - cardPad * 2)))
                ([], 0) bodyParagraphs))"

definition visibleBodyLines :: "(string \<Rightarrow> jsstring \<Rightarrow> real) \<Rightarrow> card \<Rightarrow> jsstring list" where
  "visibleBodyLines measureText c = take maxBodyLines (bodyLines measureText c)"

text \<open>
  The vertical cursor: \<open>y = 140\<close>, \<open>y += 100\<close>, \<open>cardTop = y\<close>,
  \<open>contentY = cardTop + cardPad\<close>, \<open>contentY += tagH + 36\<close> with \<open>tagH = 52\<close>, then the title
  block; \<open>bodyY\<close> is the cursor after it.
\<close>

definition titleY :: int where
  "titleY = (140 + 100) + cardPad + (52 + 36)"

definition bodyY :: "(string \<Rightarrow> jsstring \<Rightarrow> real) \<Rightarrow> card \<Rightarrow> int" where
  "bodyY measureText c =
     titleY + int (length (titleLines measureText c)) * titleLineHeight + 40"

text \<open>
  The \<open>fillText\<close> calls of the body: \<open>visibleBodyLines.forEach((line, i) => ...)\<close> skips
  the blank lines and paints every other line at \<open>(PAD + cardPad, bodyY + (i + 1) *
  bodyLineHeight)\<close>. A call is the triple of the text and the two coordinates.
\<close>

definition draw_body_line :: "int \<Rightarrow> jsstring \<times> nat \<Rightarrow> (jsstring \<times> int \<times> int) list" where
  "draw_body_line y0 li =
     (let (line, i) = li
      in if line = [] then []
         else [(line, PAD + cardPad, y0 + (int i + 1) * bodyLineHeight)])"

definition draw_body :: "(string \<Rightarrow> jsstring \<Rightarrow> real) \<Rightarrow> card \<Rightarrow> (jsstring \<times> int \<times> int) list" where
  "draw_body measureText c =
     (let visible = visibleBodyLines measureText c
      in concat (map (draw_body_line (bodyY measureText c))
                   (zip visible [0 ..< length visible])))"

section \<open>Card image renderer: sharing\<close>

text \<open>
  \<open>shareCardImage\<close> awaits the platform; what the platform answers is the environment of the
  model. A rejected promise or a thrown exception carries an error, of which the code reads
  the \<open>name\<close>.
\<close>

datatype js_error = JsError (error_name: string)

record platform =
  generate_result :: "js_error + jsstring"
  fetch_result :: "js_error option"
  share_defined :: bool
  canShare_files :: bool
  share_result :: "js_error option"

text \<open>
  What the caller of \<open>shareCardImage\<close> observes: the promise is fulfilled, after the listed
  effects, or it is rejected with an error.
\<close>

datatype effect = ShareCalled | DownloadClicked jsstring

datatype outcome = Fulfilled "effect list" | Rejected js_error

definition ascii :: "string \<Rightarrow> jsstring" where
  "ascii str = map (\<lambda>c. of_nat (of_char c)) str"

definition download_name :: "card \<Rightarrow> jsstring" where
  "download_name c =
     ascii ''ai-for-grandmas-'' @ str_or (card_type c) (ascii ''card'') @ ascii ''.png''"

definition shareCardImage :: "platform \<Rightarrow> card \<Rightarrow> outcome" where
  "shareCardImage env c =
     (case generate_result env of
        Inl e \<Rightarrow> Rejected e
      | Inr dataUrl \<Rightarrow>
         (case fetch_result env of
            Some e \<Rightarrow> Rejected e
          | None \<Rightarrow>
             if share_defined env \<and> canShare_files env then
               (case share_result env of
                  None \<Rightarrow> Fulfilled [ShareCalled]
                | Some e \<Rightarrow>
                   if error_name e = ''AbortError'' then Fulfilled [ShareCalled]
                   else Fulfilled [ShareCalled, DownloadClicked (download_name c)])
             else Fulfilled [DownloadClicked (download_name c)]))"

section \<open>Hash: the loop against the recurrence\<close>

lemma word_of_to_int32: "(word_of_int (to_int32 x) :: 32 word) = word_of_int x"
  by (simp add: to_int32_def)

lemma hash_step_word:
  "(word_of_int (hash_step h c) :: 32 word) = word_of_int h * 31 + word_of_int (uint c)"
proof -
  have "(word_of_int (hash_step h c) :: 32 word)
        = word_of_int (to_int32 (h * 2 ^ 5) - h + uint c)"
    by (simp add: hash_step_def word_of_to_int32)
  also have "\<dots> = word_of_int (to_int32 (h * 2 ^ 5)) - word_of_int h + word_of_int (uint c)"
    by simp
  also have "\<dots> = word_of_int (h * 2 ^ 5) - word_of_int h + word_of_int (uint c)"
    by (simp only: word_of_to_int32)
  also have "\<dots> = word_of_int h * 31 + word_of_int (uint c)"
    by simp
  finally show ?thesis .
qed

lemma hash_loop_word:
  "(word_of_int (hash_loop str) :: 32 word) = word_of_int (spec_fold str)"
proof (induction str rule: rev_induct)
  case Nil
  show ?case by (simp add: hash_loop_def spec_fold_def)
next
  case (snoc c str)
  have "(word_of_int (hash_loop (str @ [c])) :: 32 word)
        = word_of_int (hash_step (hash_loop str) c)"
    by (simp add: hash_loop_def)
  also have "\<dots> = word_of_int (hash_loop str) * 31 + word_of_int (uint c)"
    by (rule hash_step_word)
  also have "\<dots> = word_of_int (spec_fold str) * 31 + word_of_int (uint c)"
    by (simp only: snoc.IH)
  also have "\<dots> = word_of_int (spec_fold (str @ [c]))"
    by (simp add: spec_fold_def)
  finally show ?case .
qed

lemma to_int32_idem: "to_int32 (to_int32 x) = to_int32 x"
  by (simp add: to_int32_def)

lemma hash_loop_wrapped: "to_int32 (hash_loop str) = hash_loop str"
proof (cases str rule: rev_cases)
  case Nil
  then show ?thesis by (simp add: hash_loop_def to_int32_def)
next
  case (snoc ys y)
  then show ?thesis by (simp add: hash_loop_def hash_step_def to_int32_idem)
qed

lemma hash_loop_spec: "hash_loop str = to_int32 (spec_fold str)"
proof -
  have "hash_loop str = to_int32 (hash_loop str)"
    by (simp add: hash_loop_wrapped)
  also have "\<dots> = sint (word_of_int (hash_loop str) :: 32 word)"
    by (simp add: to_int32_def)
  also have "\<dots> = sint (word_of_int (spec_fold str) :: 32 word)"
    by (simp only: hash_loop_word)
  finally show ?thesis by (simp add: to_int32_def)
qed

lemma hash_spec_seed: "int (hash str) = spec_seed str"
  by (simp add: hash_def spec_seed_def hash_loop_spec)

section \<open>The generator: range of the state and of the output\<close>

lemma lcg_dvd_cancel:
  assumes "2147483647 dvd s * (16807::nat)"
  shows "2147483647 dvd s"
proof -
  have eq: "s * 16807 * 1407677000 = s + 2147483647 * (11017 * s)"
    by simp
  have "2147483647 dvd s * 16807 * 1407677000"
    using assms by (rule dvd_mult2)
  then have "2147483647 dvd s + 2147483647 * (11017 * s)"
    by (simp only: eq)
  moreover have "(2147483647::nat) dvd 2147483647 * (11017 * s)"
    by (rule dvd_triv_left)
  ultimately show ?thesis
    by (simp only: dvd_add_left_iff)
qed

lemma lcg_next_zero_iff: "lcg_next s = 0 \<longleftrightarrow> 2147483647 dvd s"
proof
  assume "lcg_next s = 0"
  then have "2147483647 dvd s * 16807"
    by (simp add: lcg_next_def mod_eq_0_iff_dvd)
  then show "2147483647 dvd s" by (rule lcg_dvd_cancel)
next
  assume "2147483647 dvd s"
  then have "2147483647 dvd s * 16807" by (rule dvd_mult2)
  then show "lcg_next s = 0" by (simp add: lcg_next_def mod_eq_0_iff_dvd)
qed

lemma lcg_next_less: "lcg_next s < 2147483647"
  by (simp add: lcg_next_def)

lemma lcg_state_Suc: "lcg_state seed (Suc n) = lcg_next (lcg_state seed n)"
  by (simp add: lcg_state_def)

lemma lcg_state_dvd: "2147483647 dvd lcg_state seed n \<longleftrightarrow> 2147483647 dvd seed"
proof (induction n)
  case 0
  show ?case by (simp add: lcg_state_def)
next
  case (Suc n)
  have "2147483647 dvd lcg_next (lcg_state seed n) \<longleftrightarrow> lcg_next (lcg_state seed n) = 0"
    using lcg_next_less [of "lcg_state seed n"] by (auto dest: dvd_imp_le)
  then show ?case
    using Suc by (simp add: lcg_state_Suc lcg_next_zero_iff)
qed

lemma lcg_next_range:
  "\<not> 2147483647 dvd s \<Longrightarrow> 1 \<le> lcg_next s \<and> lcg_next s \<le> 2147483646"
  using lcg_next_zero_iff [of s] lcg_next_less [of s] by simp

lemma rand_fst: "fst (rand s) = lcg_out (lcg_next s)"
  by (simp add: rand_def Let_def)

lemma rand_snd: "snd (rand s) = lcg_next s"
  by (simp add: rand_def Let_def)

lemma lcg_out_unit: "1 \<le> s \<Longrightarrow> s \<le> 2147483646 \<Longrightarrow> 0 \<le> lcg_out s \<and> lcg_out s < 1"
  by (simp add: lcg_out_def)

lemma lcg_out_lower: "- 1 / 2147483646 \<le> lcg_out s"
  by (simp add: lcg_out_def)

text \<open>The step of the dot grid is positive, whatever the state of the generator.\<close>

lemma dot_spacing_ge: "24 \<le> 25 + \<lfloor>fst (rand s) * 15\<rfloor>"
proof -
  have "- 1 / 2147483646 \<le> fst (rand s)"
    by (simp only: rand_fst lcg_out_lower)
  then have "- 1 \<le> fst (rand s) * 15"
    by simp
  then have "- 1 \<le> \<lfloor>fst (rand s) * 15\<rfloor>"
    by (simp add: le_floor_iff)
  then show ?thesis by simp
qed

lemma hash_empty: "hash [] = 0"
  by (simp add: hash_def hash_loop_def)

text \<open>
  C10. For a seed that 2147483647 does not divide, the state after every step lies in
  \<open>[1, 2147483646]\<close> and every value the generator returns lies in \<open>[0, 1)\<close>. For a seed
  that 2147483647 divides, the state after every step is 0 and every returned value is
  \<open>(0 - 1) / 2147483646\<close>, which is negative. The value returned by draw \<open>n + 1\<close> is
  \<open>fst (rand (lcg_state seed n))\<close>, and the draw leaves the state \<open>lcg_state seed (Suc n)\<close>.
  The hash of the empty string is the seed 0.
\<close>

theorem lcg_state_invariant:
  "(\<not> 2147483647 dvd seed \<longrightarrow>
      1 \<le> lcg_state seed (Suc n) \<and> lcg_state seed (Suc n) \<le> 2147483646 \<and>
      0 \<le> fst (rand (lcg_state seed n)) \<and> fst (rand (lcg_state seed n)) < 1) \<and>
   (2147483647 dvd seed \<longrightarrow>
      lcg_state seed (Suc n) = 0 \<and>
      fst (rand (lcg_state seed n)) = (0 - 1) / 2147483646 \<and>
      fst (rand (lcg_state seed n)) < 0) \<and>
   snd (rand (lcg_state seed n)) = lcg_state seed (Suc n) \<and>
   hash [] = 0"
proof (intro conjI impI)
  assume nd: "\<not> 2147483647 dvd seed"
  then have "\<not> 2147483647 dvd lcg_state seed n"
    by (simp add: lcg_state_dvd)
  then have r: "1 \<le> lcg_next (lcg_state seed n) \<and> lcg_next (lcg_state seed n) \<le> 2147483646"
    by (rule lcg_next_range)
  from r show "1 \<le> lcg_state seed (Suc n)" by (simp add: lcg_state_Suc)
  from r show "lcg_state seed (Suc n) \<le> 2147483646" by (simp add: lcg_state_Suc)
  from r have "0 \<le> lcg_out (lcg_next (lcg_state seed n)) \<and> lcg_out (lcg_next (lcg_state seed n)) < 1"
    by (simp add: lcg_out_unit)
  then show "0 \<le> fst (rand (lcg_state seed n))" and "fst (rand (lcg_state seed n)) < 1"
    by (simp_all add: rand_fst)
next
  assume d: "2147483647 dvd seed"
  then have "2147483647 dvd lcg_state seed n"
    by (simp add: lcg_state_dvd)
  then have z: "lcg_next (lcg_state seed n) = 0"
    by (simp add: lcg_next_zero_iff)
  from z show "lcg_state seed (Suc n) = 0" by (simp add: lcg_state_Suc)
  from z show "fst (rand (lcg_state seed n)) = (0 - 1) / 2147483646"
    by (simp add: rand_fst lcg_out_def)
  from z show "fst (rand (lcg_state seed n)) < 0"
    by (simp add: rand_fst lcg_out_def)
next
  show "snd (rand (lcg_state seed n)) = lcg_state seed (Suc n)"
    by (simp add: rand_snd lcg_state_Suc)
  show "hash [] = 0" by (rule hash_empty)
qed

theorem lcg_state_invariant_witness:
  "\<not> 2147483647 dvd (97::nat) \<and> 2147483647 dvd (0::nat) \<and>
   1 \<le> lcg_state 97 (Suc 0) \<and> lcg_state 97 (Suc 0) \<le> 2147483646 \<and>
   0 \<le> fst (rand (lcg_state 97 0)) \<and> fst (rand (lcg_state 97 0)) < 1 \<and>
   lcg_state 0 (Suc 0) = 0 \<and> fst (rand (lcg_state 0 0)) < 0"
proof -
  have a: "\<not> 2147483647 dvd (97::nat)" by simp
  have b: "2147483647 dvd (0::nat)" by simp
  show ?thesis
    using a b lcg_state_invariant [of 97 0] lcg_state_invariant [of 0 0] by simp
qed

section \<open>The art engine: what \<open>generate\<close> computes\<close>

text \<open>
  \<open>generate\<close> without the store: the closure it creates is the new last cell, all draws go
  through that cell, and the cell ends in the state the last pattern leaves.
\<close>

lemma generate_unfold:
  "generate title type st =
     (let seed = hash (title @ type);
          palette = getPalette seed;
          s1 = lcg_next seed;
          s2 = lcg_next s1;
          l1 = (PATTERNS ! (seed mod length PATTERNS)) s2 palette 400 200;
          l2 = (if lcg_out s1 > 0.4
                then (PATTERNS ! ((seed + 3) mod length PATTERNS)) (snd l1) palette 400 200
                else ([], snd l1))
      in (\<lparr>view_w = 400, view_h = 200, grad_seed = seed, grad_angle = \<lfloor>lcg_out s2 * 360\<rfloor>,
            stop_0 = js_or (pick palette 2) (pick palette 0),
            stop_100 = js_or (pick palette 3) (pick palette 1),
            shapes = fst l1 @ fst l2\<rparr>, st @ [snd l2]))"
  by (simp add: generate_def seededRandom_def with_rand_def rand_def Let_def
        split: prod.splits)

lemma palette_entries:
  "i < 8 \<Longrightarrow> length (PALETTES ! i) = 5 \<and> [] \<notin> set (PALETTES ! i)"
  by (simp add: PALETTES_def less_Suc_eq numeral_nat, elim disjE; simp)

lemma lcg_state_0: "lcg_state seed 0 = seed"
  by (simp add: lcg_state_def)

lemma lcg_state_2: "lcg_state seed 2 = lcg_next (lcg_next seed)"
  by (simp add: lcg_state_def numeral_2_eq_2)

lemma length_PATTERNS: "length PATTERNS = 6"
  by (simp add: PATTERNS_def)

lemma length_PALETTES: "length PALETTES = 8"
  by (simp add: PALETTES_def)

text \<open>
  C1. The scene returned by \<open>generate title type\<close> does not depend on the store, that is on
  the closures that earlier calls created and on the states they were left in; in
  particular a second call, made after the first, returns the same scene.
\<close>

theorem generate_deterministic:
  "fst (generate title type st) = fst (generate title type st') \<and>
   fst (generate title type (snd (generate title type st))) = fst (generate title type st)"
  by (simp add: generate_unfold Let_def)

text \<open>
  C2. The seed of \<open>generate\<close>, which the markup prints in the gradient id and which
  initialises the generator, is the fold of \<open>h * 31 + charCode\<close> over \<open>title + type\<close> from 0,
  wrapped to the signed 32-bit range, in absolute value. It is not negative, and equal
  concatenations give equal seeds.
\<close>

theorem generate_seed:
  "int (grad_seed (fst (generate title type st))) = spec_seed (title @ type) \<and>
   spec_seed (title @ type)
     = \<bar>to_int32 (foldl (\<lambda>h c. h * 31 + uint c) 0 (title @ type))\<bar> \<and>
   last (snd (seededRandom (hash (title @ type)) st)) = nat (spec_seed (title @ type)) \<and>
   0 \<le> spec_seed (title @ type) \<and>
   (title @ type = title' @ type' \<longrightarrow>
      grad_seed (fst (generate title type st)) = grad_seed (fst (generate title' type' st')))"
proof (intro conjI impI)
  show "int (grad_seed (fst (generate title type st))) = spec_seed (title @ type)"
    by (simp add: generate_unfold Let_def hash_spec_seed)
  show "spec_seed (title @ type)
     = \<bar>to_int32 (foldl (\<lambda>h c. h * 31 + uint c) 0 (title @ type))\<bar>"
    by (simp only: spec_seed_def spec_fold_def)
  have "nat (spec_seed (title @ type)) = hash (title @ type)"
    by (simp flip: hash_spec_seed)
  then show "last (snd (seededRandom (hash (title @ type)) st)) = nat (spec_seed (title @ type))"
    by (simp add: seededRandom_def)
  show "0 \<le> spec_seed (title @ type)"
    by (simp add: spec_seed_def)
next
  assume "title @ type = title' @ type'"
  then show "grad_seed (fst (generate title type st)) = grad_seed (fst (generate title' type' st'))"
    by (simp add: generate_unfold Let_def)
qed

theorem generate_seed_witness:
  "[0x61, 0x62] @ [0x63] = [0x61] @ [0x62, 0x63 :: jschar] \<and>
   grad_seed (fst (generate [0x61, 0x62] [0x63] []))
     = grad_seed (fst (generate [0x61] [0x62, 0x63] [5])) \<and>
   int (grad_seed (fst (generate [0x61, 0x62] [0x63] []))) = 96354"
proof -
  have e: "[0x61, 0x62] @ [0x63] = [0x61] @ [0x62, 0x63 :: jschar]" by simp
  have v: "spec_seed ([0x61, 0x62] @ [0x63]) = 96354"
    by (simp add: spec_seed_def spec_fold_def to_int32_def)
  show ?thesis
    using e v generate_seed [of "[0x61, 0x62]" "[0x63]" "[]" "[0x61]" "[0x62, 0x63]" "[5]"]
    by simp
qed

text \<open>
  C4. \<open>generate\<close> takes its first pattern at index \<open>seed mod patternCount\<close> and its second
  at \<open>(seed + 3) mod patternCount\<close>. The first draw of the stream decides: the second
  pattern is layered after the first exactly when that value is above 0.4. The first
  pattern starts from the state after two draws (the deciding one and the one of the gradient
  angle), the second pattern from the state the first one leaves, and the closure ends in
  the state of the last pattern that ran.
\<close>

theorem generate_layers:
  "(let seed = hash (title @ type);
        palette = getPalette seed;
        decide = fst (rand (lcg_state seed 0));
        first = (PATTERNS ! (seed mod length PATTERNS)) (lcg_state seed 2) palette 400 200;
        second = (PATTERNS ! ((seed + 3) mod length PATTERNS)) (snd first) palette 400 200
    in shapes (fst (generate title type st))
         = (if decide > 0.4 then fst first @ fst second else fst first) \<and>
       snd (generate title type st)
         = st @ [if decide > 0.4 then snd second else snd first] \<and>
       seed mod length PATTERNS < length PATTERNS \<and>
       (seed + 3) mod length PATTERNS < length PATTERNS)"
  by (simp add: generate_unfold Let_def lcg_state_0 lcg_state_2 rand_def length_PATTERNS)

theorem generate_layers_witness:
  "shapes (fst (generate [0x61] [] []))
     = fst (geoPattern (lcg_state 97 2) (getPalette 97) 400 200)"
proof -
  have h: "hash ([0x61] @ []) = 97"
    by (simp add: hash_def hash_loop_def hash_step_def to_int32_def)
  have d: "\<not> fst (rand (lcg_state 97 0)) > 0.4"
    by (simp add: rand_def lcg_state_0 lcg_next_def lcg_out_def)
  have p: "PATTERNS ! (97 mod length PATTERNS) = geoPattern"
    by (simp add: PATTERNS_def)
  show ?thesis
    using generate_layers [of "[0x61]" "[]" "[]"] d unfolding h Let_def p
    by simp
qed

text \<open>
  C5. The palette of \<open>generate\<close> is \<open>PALETTES[seed mod PALETTES.length]\<close>, an entry of the
  table: the two stops of the gradient are its entries 2 and 3, and the pattern layers are
  drawn with it.
\<close>

theorem generate_palette:
  "(let seed = hash (title @ type);
        palette = PALETTES ! (seed mod length PALETTES)
    in getPalette seed = palette \<and>
       seed mod length PALETTES < length PALETTES \<and>
       stop_0 (fst (generate title type st)) = Some (palette ! 2) \<and>
       stop_100 (fst (generate title type st)) = Some (palette ! 3) \<and>
       shapes (fst (generate title type st))
         = (let first = (PATTERNS ! (seed mod length PATTERNS)) (lcg_state seed 2) palette 400 200
            in if fst (rand seed) > 0.4
               then fst first @ fst ((PATTERNS ! ((seed + 3) mod length PATTERNS)) (snd first)
                                      palette 400 200)
               else fst first))"
proof -
  define seed where "seed = hash (title @ type)"
  define palette where "palette = PALETTES ! (seed mod length PALETTES)"
  have len: "length PALETTES = 8" by (rule length_PALETTES)
  have i: "seed mod 8 < 8" by simp
  have ent: "length palette = 5 \<and> [] \<notin> set palette"
    unfolding palette_def len using i by (rule palette_entries)
  then have "palette ! 2 \<in> set palette" "palette ! 3 \<in> set palette"
    by simp_all
  with ent have ne: "palette ! 2 \<noteq> []" "palette ! 3 \<noteq> []"
    by metis+
  have g: "getPalette seed = palette"
    by (simp add: getPalette_def palette_def)
  have s0: "js_or (pick palette 2) (pick palette 0) = Some (palette ! 2)"
    using ent ne by (simp add: js_or_def pick_def)
  have s1: "js_or (pick palette 3) (pick palette 1) = Some (palette ! 3)"
    using ent ne by (simp add: js_or_def pick_def)
  show ?thesis
    unfolding seed_def [symmetric] Let_def palette_def [symmetric]
    using g s0 s1 len
    by (simp add: generate_unfold Let_def seed_def [symmetric] lcg_state_2 rand_def)
qed

theorem generate_palette_witness:
  "getPalette (hash ([0x61] @ []))
     = [''#6b705c'', ''#a5a58d'', ''#ffe8d6'', ''#cb997e'', ''#ddbea9''] \<and>
   stop_0 (fst (generate [0x61] [] [])) = Some ''#ffe8d6'' \<and>
   stop_100 (fst (generate [0x61] [] [])) = Some ''#cb997e''"
proof -
  have h: "hash ([0x61] @ []) = 97"
    by (simp add: hash_def hash_loop_def hash_step_def to_int32_def)
  have p: "PALETTES ! (97 mod length PALETTES)
             = [''#6b705c'', ''#a5a58d'', ''#ffe8d6'', ''#cb997e'', ''#ddbea9'']"
    by (simp add: PALETTES_def)
  show ?thesis
    using generate_palette [of "[0x61]" "[]" "[]"] unfolding h Let_def p
    by simp
qed

section \<open>The art engine at the seed 0\<close>

lemma blob_loop_length: "length (fst (blob_loop n palette w h s)) = n"
proof (induction n arbitrary: s)
  case 0
  show ?case by simp
next
  case (Suc n)
  show ?case
    using Suc.IH by (simp add: Let_def split: prod.splits) (metis fst_conv)
qed

lemma floor_scaled_unit:
  assumes "0 \<le> a" "a < 1"
  shows "0 \<le> \<lfloor>a * 3\<rfloor> \<and> \<lfloor>a * 3\<rfloor> \<le> (2::int)"
proof -
  have "0 \<le> a * 3" using assms by simp
  moreover have "a * 3 < 3" using assms by simp
  ultimately show ?thesis by (simp add: floor_less_iff le_floor_iff flip: less_Suc_eq_le)
qed

lemma blobPattern_count:
  "length (fst (blobPattern s palette w h)) = nat (3 + \<lfloor>lcg_out (lcg_next s) * 3\<rfloor>)"
  by (simp add: blobPattern_def rand_def Let_def blob_loop_length)

text \<open>
  From a state that 2147483647 does not divide, the blob pattern emits 3 to 5 circles.
\<close>

lemma blobPattern_count_range:
  assumes "\<not> 2147483647 dvd s"
  shows "3 \<le> length (fst (blobPattern s palette w h)) \<and>
         length (fst (blobPattern s palette w h)) \<le> 5"
proof -
  have "1 \<le> lcg_next s \<and> lcg_next s \<le> 2147483646"
    using assms by (rule lcg_next_range)
  then have "0 \<le> lcg_out (lcg_next s) \<and> lcg_out (lcg_next s) < 1"
    by (simp add: lcg_out_unit)
  then have "0 \<le> \<lfloor>lcg_out (lcg_next s) * 3\<rfloor> \<and> \<lfloor>lcg_out (lcg_next s) * 3\<rfloor> \<le> 2"
    by (simp add: floor_scaled_unit)
  then show ?thesis
    by (simp add: blobPattern_count) linarith
qed

text \<open>
  C3. At \<open>generate('', '')\<close> the seed is 0: the first call of the closure returns
  \<open>- 1 / 2147483646\<close>, which is outside \<open>[0, 1)\<close>, and with it the palette index
  \<open>Math.floor(rand() * palette.length)\<close> is \<open>- 1\<close>, so the colour is \<open>undefined\<close>.
\<close>

theorem seededRandom_seed_zero:
  "hash ([] @ []) = 0 \<and>
   fst (with_rand (fst (seededRandom (hash ([] @ [])) st)) rand
          (snd (seededRandom (hash ([] @ [])) st))) = - 1 / 2147483646 \<and>
   \<not> (0 \<le> fst (rand 0) \<and> fst (rand 0) < 1) \<and>
   pick (getPalette 0) \<lfloor>fst (rand 0) * real (length (getPalette 0))\<rfloor> = None"
proof -
  have "length (getPalette 0) = 5"
    by (simp add: getPalette_def PALETTES_def)
  then show ?thesis
    by (simp add: hash_empty seededRandom_def with_rand_def rand_def Let_def lcg_next_def
          lcg_out_def pick_def)
qed

text \<open>
  C9. At the state 0 the blob pattern draws \<open>count = 3 + Math.floor(rand() * 3) = 2\<close> and
  emits two circles; \<open>generate('', '')\<close> reaches it, since the seed 0 selects pattern 0 and
  leaves the state at 0.
\<close>

theorem blobPattern_seed_zero:
  "hash ([] @ []) = 0 \<and>
   length (fst (blobPattern 0 palette w h)) = 2 \<and>
   length (shapes (fst (generate [] [] st))) = 2"
proof (intro conjI)
  show "hash ([] @ []) = 0" by (simp add: hash_empty)
  have z: "lcg_next 0 = 0" by (simp add: lcg_next_def)
  have f: "\<lfloor>lcg_out 0 * 3\<rfloor> = -1" by (simp add: lcg_out_def)
  show b: "\<And>palette w h. length (fst (blobPattern 0 palette w h)) = 2"
    by (simp add: blobPattern_count z f)
  have "\<not> lcg_out 0 > 0.4" by (simp add: lcg_out_def)
  then have "shapes (fst (generate [] [] st)) = fst (blobPattern 0 (getPalette 0) 400 200)"
    by (simp add: generate_unfold hash_empty z PATTERNS_def Let_def)
  then show "length (shapes (fst (generate [] [] st))) = 2"
    by (simp only: b)
qed

section \<open>The renderer: word wrap\<close>

lemma join_sp_snoc: "run \<noteq> [] \<Longrightarrow> join_sp (run @ [w]) = join_sp run @ [SPACE] @ w"
  by (induction run rule: join_sp.induct) simp_all

lemma wrap_fold_width:
  "foldl (wrap_step width maxWidth) ([], []) ws = (lines, cur) \<Longrightarrow>
   (\<forall>l \<in> set lines. width l \<le> maxWidth \<or> l \<in> set ws) \<and>
   (cur = [] \<or> width cur \<le> maxWidth \<or> cur \<in> set ws)"
proof (induction ws arbitrary: lines cur rule: rev_induct)
  case Nil
  then show ?case by simp
next
  case (snoc w ws)
  obtain lines0 cur0 where f: "foldl (wrap_step width maxWidth) ([], []) ws = (lines0, cur0)"
    by (cases "foldl (wrap_step width maxWidth) ([], []) ws")
  from snoc.IH [OF f]
  have ih: "\<forall>l \<in> set lines0. width l \<le> maxWidth \<or> l \<in> set ws"
       "cur0 = [] \<or> width cur0 \<le> maxWidth \<or> cur0 \<in> set ws"
    by simp_all
  from snoc.prems f have step: "wrap_step width maxWidth (lines0, cur0) w = (lines, cur)"
    by simp
  show ?case
  proof (cases "cur0 = []")
    case True
    with step have "lines = lines0" "cur = w"
      by (simp_all add: wrap_step_def)
    with ih show ?thesis by auto
  next
    case False
    show ?thesis
    proof (cases "width (cur0 @ [SPACE] @ w) > maxWidth")
      case True
      with False step have "lines = lines0 @ [cur0]" "cur = w"
        by (simp_all add: wrap_step_def)
      with ih False show ?thesis by auto
    next
      case over: False
      with False step have "lines = lines0" "cur = cur0 @ [SPACE] @ w"
        by (simp_all add: wrap_step_def)
      with ih over show ?thesis by auto
    qed
  qed
qed

lemma wrap_fold_runs:
  "foldl (wrap_step width maxWidth) ([], []) ws = (lines, cur) \<Longrightarrow>
   (\<forall>l \<in> set lines. \<exists>pre run post. ws = pre @ run @ post \<and> run \<noteq> [] \<and> l = join_sp run) \<and>
   (cur = [] \<or> (\<exists>pre run. ws = pre @ run \<and> run \<noteq> [] \<and> cur = join_sp run))"
proof (induction ws arbitrary: lines cur rule: rev_induct)
  case Nil
  then show ?case by simp
next
  case (snoc w ws)
  obtain lines0 cur0 where f: "foldl (wrap_step width maxWidth) ([], []) ws = (lines0, cur0)"
    by (cases "foldl (wrap_step width maxWidth) ([], []) ws")
  from snoc.IH [OF f]
  have ih1: "\<forall>l \<in> set lines0. \<exists>pre run post. ws = pre @ run @ post \<and> run \<noteq> [] \<and> l = join_sp run"
   and ih2: "cur0 = [] \<or> (\<exists>pre run. ws = pre @ run \<and> run \<noteq> [] \<and> cur0 = join_sp run)"
    by simp_all
  from snoc.prems f have step: "wrap_step width maxWidth (lines0, cur0) w = (lines, cur)"
    by simp
  have old: "\<exists>pre run post. ws @ [w] = pre @ run @ post \<and> run \<noteq> [] \<and> l = join_sp run"
    if "l \<in> set lines0" for l
  proof -
    from ih1 that obtain pre run post where "ws = pre @ run @ post" "run \<noteq> []" "l = join_sp run"
      by blast
    then have "ws @ [w] = pre @ run @ (post @ [w]) \<and> run \<noteq> [] \<and> l = join_sp run"
      by simp
    then show ?thesis by blast
  qed
  have single: "\<exists>pre run. ws @ [w] = pre @ run \<and> run \<noteq> [] \<and> w = join_sp run"
  proof -
    have "ws @ [w] = ws @ [w] \<and> [w] \<noteq> [] \<and> w = join_sp [w]" by simp
    then show ?thesis by blast
  qed
  show ?case
  proof (cases "cur0 = []")
    case True
    with step have "lines = lines0" "cur = w"
      by (simp_all add: wrap_step_def)
    with old single show ?thesis by auto
  next
    case False
    with ih2 obtain pre run where r: "ws = pre @ run" "run \<noteq> []" "cur0 = join_sp run"
      by blast
    show ?thesis
    proof (cases "width (cur0 @ [SPACE] @ w) > maxWidth")
      case True
      with False step have eq: "lines = lines0 @ [cur0]" "cur = w"
        by (simp_all add: wrap_step_def)
      from r have "ws @ [w] = pre @ run @ [w] \<and> run \<noteq> [] \<and> cur0 = join_sp run"
        by simp
      then have "\<exists>pre run post. ws @ [w] = pre @ run @ post \<and> run \<noteq> [] \<and> cur0 = join_sp run"
        by blast
      with eq old single show ?thesis by auto
    next
      case over: False
      with False step have eq: "lines = lines0" "cur = cur0 @ [SPACE] @ w"
        by (simp_all add: wrap_step_def)
      from r have "ws @ [w] = pre @ (run @ [w]) \<and> run @ [w] \<noteq> [] \<and> cur = join_sp (run @ [w])"
        by (simp add: eq join_sp_snoc)
      then have "\<exists>pre run. ws @ [w] = pre @ run \<and> run \<noteq> [] \<and> cur = join_sp run"
        by blast
      with eq old show ?thesis by auto
    qed
  qed
qed

text \<open>
  C6. Every line of \<open>wrapText\<close> is at most \<open>maxWidth\<close> wide, unless it is one single word of
  the text that is wider than \<open>maxWidth\<close>; and every line is the words of a non-empty run of
  consecutive words of \<open>text.split(' ')\<close>, joined by single spaces, so no word is broken.
\<close>

theorem wrapText_lines:
  "\<forall>line \<in> set (wrapText width text maxWidth).
     (width line \<le> maxWidth \<or> (line \<in> set (split_on SPACE text) \<and> width line > maxWidth)) \<and>
     (\<exists>pre run post. split_on SPACE text = pre @ run @ post \<and> run \<noteq> [] \<and>
        line = join_sp run)"
proof
  fix line
  assume mem: "line \<in> set (wrapText width text maxWidth)"
  obtain lines cur where
    f: "foldl (wrap_step width maxWidth) ([], []) (split_on SPACE text) = (lines, cur)"
    by (cases "foldl (wrap_step width maxWidth) ([], []) (split_on SPACE text)")
  from mem f have cases: "line \<in> set lines \<or> (cur \<noteq> [] \<and> line = cur)"
    by (auto simp: wrapText_def Let_def split: if_splits)
  from wrap_fold_width [OF f] cases
  have w: "width line \<le> maxWidth \<or> line \<in> set (split_on SPACE text)"
    by auto
  note runs = wrap_fold_runs [OF f]
  have r: "\<exists>pre run post. split_on SPACE text = pre @ run @ post \<and> run \<noteq> [] \<and> line = join_sp run"
  proof (cases "line \<in> set lines")
    case True
    with runs show ?thesis by blast
  next
    case False
    with cases have c: "cur \<noteq> []" "line = cur" by simp_all
    with runs obtain pre run where "split_on SPACE text = pre @ run" "run \<noteq> []" "cur = join_sp run"
      by blast
    with c have "split_on SPACE text = pre @ run @ [] \<and> run \<noteq> [] \<and> line = join_sp run"
      by simp
    then show ?thesis by blast
  qed
  from w r show "(width line \<le> maxWidth \<or> (line \<in> set (split_on SPACE text) \<and> width line > maxWidth)) \<and>
     (\<exists>pre run post. split_on SPACE text = pre @ run @ post \<and> run \<noteq> [] \<and>
        line = join_sp run)"
    by auto
qed

theorem wrapText_lines_witness:
  "wrapText (\<lambda>t. real (length t)) [0x61, 0x62, 0x63, 0x64, 0x20, 0x65] 3
     = [[0x61, 0x62, 0x63, 0x64], [0x65]] \<and>
   real (length [0x61, 0x62, 0x63, 0x64 :: jschar]) > 3 \<and>
   [0x61, 0x62, 0x63, 0x64] \<in> set (split_on SPACE [0x61, 0x62, 0x63, 0x64, 0x20, 0x65]) \<and>
   (\<exists>pre run post.
      split_on SPACE [0x61, 0x62, 0x63, 0x64, 0x20, 0x65] = pre @ run @ post \<and>
      run \<noteq> [] \<and> [0x61, 0x62, 0x63, 0x64] = join_sp run) \<and>
   real (length [0x65 :: jschar]) \<le> 3"
proof -
  have e: "wrapText (\<lambda>t. real (length t)) [0x61, 0x62, 0x63, 0x64, 0x20, 0x65] 3
             = [[0x61, 0x62, 0x63, 0x64], [0x65]]"
    by (simp add: wrapText_def wrap_step_def SPACE_def Let_def)
  show ?thesis
    using wrapText_lines [of "\<lambda>t. real (length t)" "[0x61, 0x62, 0x63, 0x64, 0x20, 0x65]" 3]
    unfolding e by simp
qed

section \<open>The renderer: body truncation\<close>

lemma draw_body_texts:
  "length idx = length xs \<Longrightarrow>
   map fst (concat (map (draw_body_line y0) (zip xs idx))) = filter (\<lambda>l. l \<noteq> []) xs"
  by (induction xs idx rule: list_induct2') (simp_all add: draw_body_line_def)

lemma draw_body_length:
  "length (concat (map (draw_body_line y0) ps)) \<le> length ps"
  by (induction ps) (auto simp: draw_body_line_def split: prod.splits)

lemma visible_length: "length (visibleBodyLines measureText c) \<le> 16"
  by (simp add: visibleBodyLines_def maxBodyLines_def)

text \<open>
  C7. The visible body lines are the first 16 of the wrapped body lines. \<open>generate\<close> makes
  at most 16 \<open>fillText\<close> calls for the body: the texts painted are, in order, the non-blank
  lines among those first 16 and nothing else (no marker is added), a non-blank line \<open>i\<close> is
  painted at \<open>(PAD + cardPad, bodyY + (i + 1) * bodyLineHeight)\<close>, and a body of more than 16
  lines has exactly 16 visible lines.
\<close>

theorem body_truncated:
  "visibleBodyLines measureText c = take 16 (bodyLines measureText c) \<and>
   length (draw_body measureText c) \<le> 16 \<and>
   map fst (draw_body measureText c)
     = filter (\<lambda>l. l \<noteq> []) (take 16 (bodyLines measureText c)) \<and>
   (16 < length (bodyLines measureText c) \<longrightarrow>
      length (visibleBodyLines measureText c) = 16) \<and>
   (\<forall>i < length (visibleBodyLines measureText c).
      visibleBodyLines measureText c ! i \<noteq> [] \<longrightarrow>
      (visibleBodyLines measureText c ! i, PAD + cardPad,
       bodyY measureText c + (int i + 1) * bodyLineHeight) \<in> set (draw_body measureText c))"
proof (intro conjI impI allI)
  let ?vis = "visibleBodyLines measureText c"
  show v: "?vis = take 16 (bodyLines measureText c)"
    by (simp add: visibleBodyLines_def maxBodyLines_def)
  have "length (draw_body measureText c) \<le> length (zip ?vis [0 ..< length ?vis])"
    unfolding draw_body_def Let_def by (rule draw_body_length)
  also have "\<dots> \<le> 16"
    using visible_length [of measureText c] by simp
  finally show "length (draw_body measureText c) \<le> 16" .
  have "map fst (draw_body measureText c) = filter (\<lambda>l. l \<noteq> []) ?vis"
    unfolding draw_body_def Let_def by (rule draw_body_texts) simp
  then show "map fst (draw_body measureText c)
     = filter (\<lambda>l. l \<noteq> []) (take 16 (bodyLines measureText c))"
    by (simp only: v)
  show "length ?vis = 16" if "16 < length (bodyLines measureText c)"
    using that by (simp add: v)
  show "(?vis ! i, PAD + cardPad, bodyY measureText c + (int i + 1) * bodyLineHeight)
          \<in> set (draw_body measureText c)"
    if i: "i < length ?vis" and ne: "?vis ! i \<noteq> []" for i
  proof -
    have m: "(?vis ! i, i) \<in> set (zip ?vis [0 ..< length ?vis])"
      using i by (auto simp add: in_set_zip intro!: exI [of _ i])
    have "(?vis ! i, PAD + cardPad, bodyY measureText c + (int i + 1) * bodyLineHeight)
            \<in> set (draw_body_line (bodyY measureText c) (?vis ! i, i))"
      using ne by (simp add: draw_body_line_def)
    with m show ?thesis
      unfolding draw_body_def Let_def by auto
  qed
qed

theorem body_truncated_witness:
  "16 < length (bodyLines (\<lambda>font t. real (length t))
     \<lparr>card_type = None, card_title = None,
      card_body = Some [0x61, 10, 0x61, 10, 10, 0x61, 10, 0x61, 10, 0x61, 10, 0x61, 10, 0x61,
                        10, 0x61, 10, 0x61],
      card_emoji = None, card_label = None, card_source_name = None\<rparr>) \<and>
   length (visibleBodyLines (\<lambda>font t. real (length t))
     \<lparr>card_type = None, card_title = None,
      card_body = Some [0x61, 10, 0x61, 10, 10, 0x61, 10, 0x61, 10, 0x61, 10, 0x61, 10, 0x61,
                        10, 0x61, 10, 0x61],
      card_emoji = None, card_label = None, card_source_name = None\<rparr>) = 16 \<and>
   map fst (draw_body (\<lambda>font t. real (length t))
     \<lparr>card_type = None, card_title = None,
      card_body = Some [0x61, 10, 0x61, 10, 10, 0x61, 10, 0x61, 10, 0x61, 10, 0x61, 10, 0x61,
                        10, 0x61, 10, 0x61],
      card_emoji = None, card_label = None, card_source_name = None\<rparr>)
     = [[0x61], [0x61], [0x61], [0x61], [0x61], [0x61], [0x61], [0x61]] \<and>
   ([0x61], 140, 602) \<in> set (draw_body (\<lambda>font t. real (length t))
     \<lparr>card_type = None, card_title = None,
      card_body = Some [0x61, 10, 0x61, 10, 10, 0x61, 10, 0x61, 10, 0x61, 10, 0x61, 10, 0x61,
                        10, 0x61, 10, 0x61],
      card_emoji = None, card_label = None, card_source_name = None\<rparr>)"
proof -
  let ?m = "\<lambda>(font :: string) (t :: jsstring). real (length t)"
  let ?c = "\<lparr>card_type = None, card_title = None,
      card_body = Some [0x61, 10, 0x61, 10, 10, 0x61, 10, 0x61, 10, 0x61, 10, 0x61, 10, 0x61,
                        10, 0x61, 10, 0x61 :: jschar],
      card_emoji = None, card_label = None, card_source_name = None\<rparr>"
  have bl: "bodyLines ?m ?c
    = [[0x61], [], [0x61], [], [0x61], [], [0x61], [], [0x61], [], [0x61], [], [0x61], [],
       [0x61], [], [0x61]]"
    by (simp add: bodyLines_def str_or_def LF_def SPACE_def para_step_def trim_def
          js_whitespace_def wrapText_def wrap_step_def Let_def CONTENT_W_def W_def PAD_def
          cardPad_def)
  have yb: "bodyY ?m ?c = 428"
    by (simp add: bodyY_def titleY_def titleLines_def str_or_def wrapText_def wrap_step_def
          Let_def cardPad_def titleLineHeight_def)
  have vis: "visibleBodyLines ?m ?c
    = [[0x61], [], [0x61], [], [0x61], [], [0x61], [], [0x61], [], [0x61], [], [0x61], [],
       [0x61], []]"
    by (simp add: visibleBodyLines_def maxBodyLines_def bl)
  have pos: "PAD + cardPad = 140" "bodyLineHeight = 58"
    by (simp_all add: PAD_def cardPad_def bodyLineHeight_def)
  note t = body_truncated [of ?m ?c]
  from t have a: "16 < length (bodyLines ?m ?c) \<longrightarrow> length (visibleBodyLines ?m ?c) = 16"
    by blast
  from t have b: "map fst (draw_body ?m ?c) = filter (\<lambda>l. l \<noteq> []) (take 16 (bodyLines ?m ?c))"
    by blast
  from t have "2 < length (visibleBodyLines ?m ?c) \<longrightarrow> visibleBodyLines ?m ?c ! 2 \<noteq> [] \<longrightarrow>
      (visibleBodyLines ?m ?c ! 2, PAD + cardPad, bodyY ?m ?c + (int 2 + 1) * bodyLineHeight)
        \<in> set (draw_body ?m ?c)"
    by blast
  then have c: "([0x61], 140, 602) \<in> set (draw_body ?m ?c)"
    by (simp add: vis yb pos)
  have l: "16 < length (bodyLines ?m ?c)" by (simp add: bl)
  from a l b c show ?thesis by (simp add: bl)
qed

section \<open>The renderer: sharing\<close>

text \<open>
  C8, as stated, fails: when \<open>navigator.share\<close> rejects with \<open>NotAllowedError\<close>, the promise of
  \<open>shareCardImage\<close> is fulfilled, after the download fallback, and not rejected.
\<close>

theorem share_nonabort_fulfilled:
  "shareCardImage
     \<lparr>generate_result = Inr [], fetch_result = None, share_defined = True,
      canShare_files = True, share_result = Some (JsError ''NotAllowedError'')\<rparr>
     \<lparr>card_type = None, card_title = None, card_body = None, card_emoji = None,
      card_label = None, card_source_name = None\<rparr>
   = Fulfilled [ShareCalled, DownloadClicked (ascii ''ai-for-grandmas-card.png'')] \<and>
   shareCardImage
     \<lparr>generate_result = Inr [], fetch_result = None, share_defined = True,
      canShare_files = True, share_result = Some (JsError ''NotAllowedError'')\<rparr>
     \<lparr>card_type = None, card_title = None, card_body = None, card_emoji = None,
      card_label = None, card_source_name = None\<rparr>
   \<noteq> Rejected (JsError ''NotAllowedError'')"
  by (simp add: shareCardImage_def download_name_def str_or_def ascii_def)

text \<open>
  C8, amended. When the share call is made and rejects with an error, \<open>shareCardImage\<close>
  catches it. For an error other than \<open>AbortError\<close> it falls back to the download and the
  promise is fulfilled; the share is not called again. For \<open>AbortError\<close> the promise is
  fulfilled with no further effect.
\<close>

theorem share_error_handling:
  assumes "generate_result env = Inr dataUrl" and "fetch_result env = None"
    and "share_defined env" and "canShare_files env" and "share_result env = Some e"
  shows "(error_name e \<noteq> ''AbortError'' \<longrightarrow>
            shareCardImage env c = Fulfilled [ShareCalled, DownloadClicked (download_name c)]) \<and>
         (error_name e = ''AbortError'' \<longrightarrow> shareCardImage env c = Fulfilled [ShareCalled])"
  using assms by (simp add: shareCardImage_def)

theorem share_error_handling_witness:
  "shareCardImage
     \<lparr>generate_result = Inr [], fetch_result = None, share_defined = True,
      canShare_files = True, share_result = Some (JsError ''NotAllowedError'')\<rparr>
     \<lparr>card_type = Some (ascii ''tool_drop''), card_title = None, card_body = None,
      card_emoji = None, card_label = None, card_source_name = None\<rparr>
   = Fulfilled [ShareCalled, DownloadClicked (ascii ''ai-for-grandmas-tool_drop.png'')] \<and>
   shareCardImage
     \<lparr>generate_result = Inr [], fetch_result = None, share_defined = True,
      canShare_files = True, share_result = Some (JsError ''AbortError'')\<rparr>
     \<lparr>card_type = Some (ascii ''tool_drop''), card_title = None, card_body = None,
      card_emoji = None, card_label = None, card_source_name = None\<rparr>
   = Fulfilled [ShareCalled]"
proof -
  let ?c = "\<lparr>card_type = Some (ascii ''tool_drop''), card_title = None, card_body = None,
      card_emoji = None, card_label = None, card_source_name = None\<rparr>"
  let ?env = "\<lambda>n. \<lparr>generate_result = Inr [], fetch_result = None, share_defined = True,
      canShare_files = True, share_result = Some (JsError n)\<rparr>"
  have n: "download_name ?c = ascii ''ai-for-grandmas-tool_drop.png''"
    by (simp add: download_name_def str_or_def ascii_def)
  have a: "shareCardImage (?env ''NotAllowedError'') ?c
             = Fulfilled [ShareCalled, DownloadClicked (download_name ?c)]"
    using share_error_handling [of "?env ''NotAllowedError''" "[]" "JsError ''NotAllowedError''" ?c]
    by simp
  have b: "shareCardImage (?env ''AbortError'') ?c = Fulfilled [ShareCalled]"
    using share_error_handling [of "?env ''AbortError''" "[]" "JsError ''AbortError''" ?c]
    by simp
  from a b n show ?thesis by simp
qed

end
